theory Spec2Isabelle
  imports Complex_Main "HOL-Library.Sublist"
begin

section \<open>The Slack OAuth callback handler\<close>

text \<open>
  A shallow embedding of \<^verbatim>\<open>supabase/functions/slack-oauth-callback/index.ts\<close>. The
  file holds one function, the handler given to \<^verbatim>\<open>Deno.serve\<close>. It reads the request and the
  process environment, calls two collaborators (the provider's token endpoint through
  \<^verbatim>\<open>fetch\<close>, the profiles table through the database client) and answers with one response.

  The collaborators are outside the file. What each of them answers is an input of the model
  (the record \<open>world\<close>); what the handler asks of them is an output (the list of effects, in
  the order in which the handler performs them).
\<close>

subsection \<open>JavaScript values\<close>

text \<open>
  A parsed JSON document. An object keeps its members in an association list. A value of
  type \<open>json option\<close> is a JavaScript value that may be \<^verbatim>\<open>undefined\<close> (\<open>None\<close>).
\<close>

datatype json =
    JNull
  | JBool bool
  | JNum rat
  | JStr string
  | JArr "json list"
  | JObj "(string \<times> json) list"

text \<open>
  \<^verbatim>\<open>v.k\<close> for a value \<open>v\<close> that is not \<^verbatim>\<open>null\<close>: a member of an object (the last one of
  that name, as \<^verbatim>\<open>JSON.parse\<close> keeps it), and \<^verbatim>\<open>undefined\<close> on a boolean, a number, a
  string or an array, none of which has a property of any name the handler reads.
  Reading a property of \<^verbatim>\<open>null\<close> throws a \<^verbatim>\<open>TypeError\<close>, which \<open>read_prop\<close> models: the
  result is the error's message (\<open>Inl\<close>) or the property's value.
\<close>

fun js_prop :: "json \<Rightarrow> string \<Rightarrow> json option" where
  "js_prop (JObj kvs) k = map_of (rev kvs) k"
| "js_prop _ k = None"

definition read_prop :: "json \<Rightarrow> string \<Rightarrow> string + json option" where
  "read_prop v k =
    (if v = JNull
     then Inl (''Cannot read properties of null (reading '' @ [CHR 0x27] @ k @ [CHR 0x27] @ '')'')
     else Inr (js_prop v k))"

text \<open>\<^verbatim>\<open>a?.k\<close>: \<^verbatim>\<open>undefined\<close> when \<open>a\<close> is \<^verbatim>\<open>undefined\<close> or \<^verbatim>\<open>null\<close>.\<close>

fun opt_chain :: "json option \<Rightarrow> string \<Rightarrow> json option" where
  "opt_chain None k = None"
| "opt_chain (Some JNull) k = None"
| "opt_chain (Some v) k = js_prop v k"

text \<open>\<^verbatim>\<open>a ?? b\<close>: \<open>b\<close> when \<open>a\<close> is \<^verbatim>\<open>undefined\<close> or \<^verbatim>\<open>null\<close>.\<close>

fun nullish :: "json option \<Rightarrow> bool" where
  "nullish None = True"
| "nullish (Some JNull) = True"
| "nullish (Some _) = False"

definition coalesce :: "json option \<Rightarrow> json option \<Rightarrow> json option" where
  "coalesce a b = (if nullish a then b else a)"

text \<open>\<^verbatim>\<open>a ?? null\<close>, which is never \<^verbatim>\<open>undefined\<close>.\<close>

definition or_null :: "json option \<Rightarrow> json" where
  "or_null a = (case a of None \<Rightarrow> JNull | Some v \<Rightarrow> v)"

text \<open>Truthiness, as \<^verbatim>\<open>!v\<close> and \<^verbatim>\<open>if (v)\<close> test it.\<close>

fun truthy :: "json option \<Rightarrow> bool" where
  "truthy None = False"
| "truthy (Some JNull) = False"
| "truthy (Some (JBool b)) = b"
| "truthy (Some (JNum n)) = (n \<noteq> 0)"
| "truthy (Some (JStr s)) = (s \<noteq> [])"
| "truthy (Some (JArr _)) = True"
| "truthy (Some (JObj _)) = True"

text \<open>
  Truthiness of a \<^verbatim>\<open>string | null\<close> (a query parameter) or a \<^verbatim>\<open>string | undefined\<close> (an
  environment variable): absent and empty are both falsy.
\<close>

fun truthy_str :: "string option \<Rightarrow> bool" where
  "truthy_str None = False"
| "truthy_str (Some s) = (s \<noteq> [])"

subsection \<open>Request, environment, response\<close>

text \<open>
  The request: its method (\<^verbatim>\<open>req.method\<close>, here \<open>req_method\<close>) and the parameters of its
  URL's query string, decoded, in order.
  \<^verbatim>\<open>url.searchParams.get(name)\<close> is the first value of that name, or \<^verbatim>\<open>null\<close>.
\<close>

record request =
  req_method :: string
  searchParams :: "(string \<times> string) list"

definition searchParams_get :: "(string \<times> string) list \<Rightarrow> string \<Rightarrow> string option" where
  "searchParams_get ps name = map_of ps name"

text \<open>\<^verbatim>\<open>Deno.env.get\<close>: a variable's value, or \<^verbatim>\<open>undefined\<close>.\<close>

type_synonym env = "string \<Rightarrow> string option"

text \<open>
  A response body: \<^verbatim>\<open>null\<close>, the text \<^verbatim>\<open>JSON.stringify(j)\<close> of a value \<open>j\<close>, or a text
  given as it is.
\<close>

datatype body = NoBody | Json json | Html string

record response =
  status :: nat
  headers :: "(string \<times> string) list"
  body :: body

definition corsHeaders :: "(string \<times> string) list" where
  "corsHeaders =
    [(''Access-Control-Allow-Origin'', ''*''),
     (''Access-Control-Allow-Methods'', ''GET, POST, PUT, DELETE, OPTIONS''),
     (''Access-Control-Allow-Headers'', ''Content-Type, Authorization, X-Client-Info, Apikey'')]"

text \<open>
  The shape of every JSON answer of the handler:
  \<^verbatim>\<open>new Response(JSON.stringify(j), { status, headers: { ...corsHeaders, "Content-Type": "application/json" } })\<close>.
\<close>

definition json_response :: "nat \<Rightarrow> json \<Rightarrow> response" where
  "json_response st j =
    \<lparr>status = st,
     headers = corsHeaders @ [(''Content-Type'', ''application/json'')],
     body = Json j\<rparr>"

subsection \<open>Collaborators\<close>

text \<open>The outbound token exchange, as the handler passes it to \<^verbatim>\<open>fetch\<close>.\<close>

record fetch_request =
  fetch_url :: string
  fetch_method :: string
  fetch_headers :: "(string \<times> string) list"
  fetch_body :: "(string \<times> string) list"

text \<open>
  The database call
  \<^verbatim>\<open>createClient(url, key).from(table).update(payload).eq(column, value)\<close>.
\<close>

record db_update =
  client_url :: string
  client_key :: string
  table :: string
  payload :: "(string \<times> json) list"
  eq_filter :: "string \<times> string"

datatype log_arg = Text string | Data json | Thrown string

datatype effect =
    Fetch fetch_request
  | DbUpdate db_update
  | ConsoleLog "log_arg list"
  | ConsoleError "log_arg list"

text \<open>
  What the collaborators answer during one invocation. A thrown \<^verbatim>\<open>Error\<close> is its message.
  \<^item> \<open>fetch_result\<close>: the provider's parsed JSON body, or the error thrown by \<^verbatim>\<open>fetch\<close>
    or by \<^verbatim>\<open>tokenResponse.json()\<close>;
  \<^item> \<open>createClient_result\<close>: the error thrown by \<^verbatim>\<open>createClient\<close>, if it throws;
  \<^item> \<open>update_result\<close>: the \<^verbatim>\<open>error\<close> member of what the awaited update resolves to
    (\<^verbatim>\<open>null\<close> when it reports none), or the error thrown by it;
  \<^item> \<open>now\<close>: \<^verbatim>\<open>new Date().toISOString()\<close>.
\<close>

record world =
  fetch_result :: "string + json"
  createClient_result :: "string option"
  update_result :: "string + json"
  now :: string

definition token_exchanges :: "effect list \<Rightarrow> fetch_request list" where
  "token_exchanges fx = concat (map (\<lambda>e. case e of Fetch r \<Rightarrow> [r] | _ \<Rightarrow> []) fx)"

definition db_writes :: "effect list \<Rightarrow> db_update list" where
  "db_writes fx = concat (map (\<lambda>e. case e of DbUpdate u \<Rightarrow> [u] | _ \<Rightarrow> []) fx)"

subsection \<open>Field normalization (lines 75 to 79)\<close>

definition accessToken_of :: "json \<Rightarrow> json" where
  "accessToken_of tokenData =
    or_null (coalesce (js_prop tokenData ''access_token'')
                      (opt_chain (js_prop tokenData ''authed_user'') ''access_token''))"

definition teamId_of :: "json \<Rightarrow> json" where
  "teamId_of tokenData =
    or_null (coalesce (opt_chain (js_prop tokenData ''team'') ''id'')
                      (js_prop tokenData ''team_id''))"

definition teamName_of :: "json \<Rightarrow> json" where
  "teamName_of tokenData =
    or_null (coalesce (opt_chain (js_prop tokenData ''team'') ''name'')
                      (js_prop tokenData ''team_name''))"

definition incomingWebhookUrl_of :: "json \<Rightarrow> json" where
  "incomingWebhookUrl_of tokenData =
    or_null (coalesce (opt_chain (js_prop tokenData ''incoming_webhook'') ''url'')
                      (js_prop tokenData ''incoming_webhook_url''))"

definition incomingWebhookChannel_of :: "json \<Rightarrow> json" where
  "incomingWebhookChannel_of tokenData =
    or_null (coalesce (opt_chain (js_prop tokenData ''incoming_webhook'') ''channel'')
                      (opt_chain (js_prop tokenData ''incoming_webhook'') ''channel_id''))"

subsection \<open>The success page (lines 149 to 169)\<close>

text \<open>
  The template literal is three pieces: the text before \<^verbatim>\<open>${appUrl}\<close>, the application URL,
  and the text after it. Every line of the source ends with a line feed.
\<close>

definition with_line_feeds :: "string list \<Rightarrow> string" where
  "with_line_feeds ls = concat (map (\<lambda>l. l @ [CHR 0x0A]) ls)"

definition html_before :: string where
  "html_before =
    with_line_feeds
     ['''',
      ''      <!DOCTYPE html>'',
      ''      <html>'',
      ''        <head>'',
      ''          <title>Slack Connected</title>'',
      ''        </head>'',
      ''        <body>'',
      ''          <h1>Successfully connected to Slack!</h1>'',
      ''          <p>You can close this window and return to the app.</p>'',
      ''          <script>'',
      ''            // Try to close the window'',
      ''            window.close();'',
      '''',
      ''            // If window doesn't close, redirect after 2 seconds'',
      ''            setTimeout(() => {'']
    @ ''              window.location.href = '' @ [CHR 0x27]"

definition html_after :: string where
  "html_after =
    [CHR 0x27] @
    with_line_feeds
     ['';'',
      ''            }, 2000);'',
      ''          </script>'',
      ''        </body>'',
      ''      </html>'']
    @ ''    ''"

definition html :: "string \<Rightarrow> string" where
  "html appUrl = html_before @ appUrl @ html_after"

subsection \<open>The handler (lines 10 to 187)\<close>

definition error_json :: "string \<Rightarrow> json" where
  "error_json msg = JObj [(''error'', JStr msg)]"

text \<open>\<^verbatim>\<open>`${v}`\<close> for a \<^verbatim>\<open>string | undefined\<close>.\<close>

definition template_str :: "string option \<Rightarrow> string" where
  "template_str v = (case v of None \<Rightarrow> ''undefined'' | Some s \<Rightarrow> s)"

text \<open>\<^verbatim>\<open>a || b\<close> and \<^verbatim>\<open>a ?? b\<close> for a \<^verbatim>\<open>string | undefined\<close> \<open>a\<close> and a string \<open>b\<close>.\<close>

definition or_str :: "string option \<Rightarrow> string \<Rightarrow> string" where
  "or_str a b = (case a of None \<Rightarrow> b | Some s \<Rightarrow> if s = [] then b else s)"

definition coalesce_str :: "string option \<Rightarrow> string \<Rightarrow> string" where
  "coalesce_str a b = (case a of None \<Rightarrow> b | Some s \<Rightarrow> s)"

text \<open>
  The body of \<^verbatim>\<open>try\<close>, lines 19 to 176: the effects performed, in order, and either the
  response returned (\<open>Inr\<close>) or the message of the error thrown (\<open>Inl\<close>).

  Line 63 is the first read of a property of \<^verbatim>\<open>tokenData\<close>; on \<^verbatim>\<open>null\<close> it throws,
  so that every later read (lines 75 to 79) finds a value that is not \<^verbatim>\<open>null\<close>.
  Where \<open>the\<close> unwraps \<open>code\<close>, \<open>state\<close>, \<open>clientId\<close>, \<open>clientSecret\<close> or
  \<open>serviceRoleKey\<close>, the guard before it has found the value truthy, hence present.
\<close>

definition try_block :: "request \<Rightarrow> env \<Rightarrow> world \<Rightarrow> effect list \<times> (string + response)" where
  "try_block req env w =
    (let code = searchParams_get (searchParams req) ''code'';
         state = searchParams_get (searchParams req) ''state''
     in
     if \<not> truthy_str code \<or> \<not> truthy_str state then
       ([], Inr (json_response 400 (error_json ''Missing code or state parameter'')))
     else
     let clientId = env ''SLACK_CLIENT_ID'';
         clientSecret = env ''SLACK_CLIENT_SECRET'';
         redirectUri = template_str (env ''SUPABASE_URL'') @ ''/functions/v1/slack-oauth-callback''
     in
     if \<not> truthy_str clientId \<or> \<not> truthy_str clientSecret then
       ([], Inr (json_response 500 (error_json ''Slack OAuth not configured'')))
     else
     let fx1 = [Fetch \<lparr>fetch_url = ''https://slack.com/api/oauth.v2.access'',
                       fetch_method = ''POST'',
                       fetch_headers = [(''Content-Type'', ''application/x-www-form-urlencoded'')],
                       fetch_body = [(''client_id'', the clientId),
                                     (''client_secret'', the clientSecret),
                                     (''code'', the code),
                                     (''redirect_uri'', redirectUri)]\<rparr>]
     in
     case fetch_result w of
       Inl thrown \<Rightarrow> (fx1, Inl thrown)
     | Inr tokenData \<Rightarrow> (
     case read_prop tokenData ''ok'' of
       Inl thrown \<Rightarrow> (fx1, Inl thrown)
     | Inr ok \<Rightarrow> (
     if \<not> truthy ok then
       (fx1 @ [ConsoleError [Text ''Slack OAuth error (full response):'', Data tokenData]],
        Inr (json_response 400 (error_json ''Failed to authenticate with Slack'')))
     else
     let accessToken = accessToken_of tokenData;
         teamId = teamId_of tokenData;
         teamName = teamName_of tokenData;
         incomingWebhookUrl = incomingWebhookUrl_of tokenData;
         incomingWebhookChannel = incomingWebhookChannel_of tokenData;
         fx2 = fx1 @ [ConsoleLog [Text ''Slack tokenData fields:'',
                        Data (JObj [(''hasAccessToken'', JBool (truthy (Some accessToken))),
                                    (''hasTeamId'', JBool (truthy (Some teamId))),
                                    (''hasIncomingWebhook'', JBool (truthy (Some incomingWebhookUrl)))])]]
     in
     if \<not> truthy (Some accessToken) then
       (fx2 @ [ConsoleError [Text ''No access token found in Slack response'', Data tokenData]],
        Inr (json_response 400 (error_json ''Slack did not return an access token'')))
     else
     let serviceRoleKey = env ''SUPABASE_SERVICE_ROLE_KEY'' in
     if \<not> truthy_str serviceRoleKey then
       (fx2 @ [ConsoleError [Text ''Missing SUPABASE_SERVICE_ROLE_KEY'']],
        Inr (json_response 500 (error_json ''Server misconfigured: SUPABASE_SERVICE_ROLE_KEY missing'')))
     else
     case createClient_result w of
       Some thrown \<Rightarrow> (fx2, Inl thrown)
     | None \<Rightarrow> (
     let userId = the state;
         fx3 = fx2 @ [DbUpdate \<lparr>client_url = coalesce_str (env ''SUPABASE_URL'') '''',
                                client_key = the serviceRoleKey,
                                table = ''profiles'',
                                payload = [(''slack_access_token'', accessToken),
                                           (''slack_team_id'', teamId),
                                           (''slack_team_name'', teamName),
                                           (''slack_channel'', or_null (Some incomingWebhookChannel)),
                                           (''slack_webhook_url'', or_null (Some incomingWebhookUrl)),
                                           (''slack_connected_at'', JStr (now w))],
                                eq_filter = (''id'', userId)\<rparr>]
     in
     case update_result w of
       Inl thrown \<Rightarrow> (fx3, Inl thrown)
     | Inr updateError \<Rightarrow> (
     if truthy (Some updateError) then
       (fx3 @ [ConsoleError [Text ''Database update error:'', Data updateError]],
        Inr (json_response 500
               (JObj [(''error'', JStr ''Failed to save Slack connection''),
                      (''details'', updateError)])))
     else
     let appUrl = or_str (env ''APP_URL'') ''http://localhost:5173'' in
     (fx3, Inr \<lparr>status = 200,
                headers = [(''Content-Type'', ''text/html'')],
                body = Html (html appUrl)\<rparr>))))))"

text \<open>
  The handler: the preflight answer (lines 11 to 16), else the body of \<^verbatim>\<open>try\<close>, with the
  \<^verbatim>\<open>catch\<close> of lines 177 to 186 (\<^verbatim>\<open>error.message || "Internal server error"\<close>).
  The result is the response and the effects performed.
\<close>

definition handler :: "request \<Rightarrow> env \<Rightarrow> world \<Rightarrow> response \<times> effect list" where
  "handler req env w =
    (if req_method req = ''OPTIONS'' then
       (\<lparr>status = 200, headers = corsHeaders, body = NoBody\<rparr>, [])
     else
       case try_block req env w of
         (fx, Inr resp) \<Rightarrow> (resp, fx)
       | (fx, Inl message) \<Rightarrow>
           (json_response 500
              (error_json (if message = [] then ''Internal server error'' else message)),
            fx @ [ConsoleError [Text ''Error:'', Thrown message]]))"

subsection \<open>The profiles table\<close>

text \<open>
  Modelled from the spec: the profiles table is an external collaborator, reached through
  the database client; no code of it is in the source. A row is a map from a column's name to
  its value. The update the handler asks for, when the database applies it, is the one of
  SQL's \<^verbatim>\<open>UPDATE profiles SET ... WHERE id = ...\<close>: in each row whose filter column holds the
  filter's value, the columns of the payload get the payload's values; nothing else changes.
\<close>

type_synonym row = "string \<Rightarrow> json option"

definition row_matches :: "string \<times> string \<Rightarrow> row \<Rightarrow> bool" where
  "row_matches f r = (r (fst f) = Some (JStr (snd f)))"

definition apply_update :: "db_update \<Rightarrow> row list \<Rightarrow> row list" where
  "apply_update u rows =
    map (\<lambda>r. if row_matches (eq_filter u) r then r ++ map_of (payload u) else r) rows"

definition slack_columns :: "string list" where
  "slack_columns =
    [''slack_access_token'', ''slack_team_id'', ''slack_team_name'',
     ''slack_channel'', ''slack_webhook_url'', ''slack_connected_at'']"

subsection \<open>Field normalization as the specification words it\<close>

text \<open>
  The specification gives, for each field, the places of the provider's response where it
  may be, in order of preference; the field is the value at the first place where one is
  present (there, and not \<^verbatim>\<open>null\<close>), else \<^verbatim>\<open>null\<close>. A place is a path of member names.
\<close>

fun at_path :: "json \<Rightarrow> string list \<Rightarrow> json option" where
  "at_path v [] = Some v"
| "at_path v (k # ks) = (case js_prop v k of None \<Rightarrow> None | Some v' \<Rightarrow> at_path v' ks)"

fun first_present :: "json \<Rightarrow> string list list \<Rightarrow> json" where
  "first_present v [] = JNull"
| "first_present v (p # ps) =
    (case at_path v p of
       None \<Rightarrow> first_present v ps
     | Some x \<Rightarrow> if x = JNull then first_present v ps else x)"

definition spec_access_token :: "json \<Rightarrow> json" where
  "spec_access_token r = first_present r [[''access_token''], [''authed_user'', ''access_token'']]"

definition spec_team_id :: "json \<Rightarrow> json" where
  "spec_team_id r = first_present r [[''team'', ''id''], [''team_id'']]"

definition spec_team_name :: "json \<Rightarrow> json" where
  "spec_team_name r = first_present r [[''team'', ''name''], [''team_name'']]"

definition spec_webhook_url :: "json \<Rightarrow> json" where
  "spec_webhook_url r = first_present r [[''incoming_webhook'', ''url''], [''incoming_webhook_url'']]"

definition spec_channel :: "json \<Rightarrow> json" where
  "spec_channel r =
    first_present r [[''incoming_webhook'', ''channel''], [''incoming_webhook'', ''channel_id'']]"

subsection \<open>Sample inputs\<close>

text \<open>The two provider responses of the specification's testable properties.\<close>

definition nested_response :: json where
  "nested_response =
    JObj [(''ok'', JBool True),
          (''access_token'', JStr ''xoxb-1''),
          (''team'', JObj [(''id'', JStr ''T1''), (''name'', JStr ''Acme'')]),
          (''incoming_webhook'',
             JObj [(''url'', JStr ''https://hooks/abc''), (''channel'', JStr ''#general'')])]"

definition legacy_response :: json where
  "legacy_response =
    JObj [(''ok'', JBool True),
          (''authed_user'', JObj [(''access_token'', JStr ''xoxp-2'')]),
          (''team_id'', JStr ''T2''),
          (''team_name'', JStr ''Old''),
          (''incoming_webhook_url'', JStr ''https://hooks/xyz'')]"

definition rejected_response :: json where
  "rejected_response = JObj [(''ok'', JBool False), (''error'', JStr ''invalid_code'')]"

definition tokenless_response :: json where
  "tokenless_response = JObj [(''ok'', JBool True), (''team_id'', JStr ''T3'')]"

definition get_request :: request where
  "get_request =
    \<lparr>req_method = ''GET'', searchParams = [(''code'', ''c0de''), (''state'', ''user-1'')]\<rparr>"

definition full_env :: env where
  "full_env =
    map_of [(''SLACK_CLIENT_ID'', ''cid''),
            (''SLACK_CLIENT_SECRET'', ''csecret''),
            (''SUPABASE_URL'', ''https://db.example''),
            (''SUPABASE_SERVICE_ROLE_KEY'', ''srk''),
            (''APP_URL'', ''https://app.example'')]"

definition env_without_service_key :: env where
  "env_without_service_key =
    map_of [(''SLACK_CLIENT_ID'', ''cid''),
            (''SLACK_CLIENT_SECRET'', ''csecret''),
            (''SUPABASE_URL'', ''https://db.example'')]"

definition env_empty_app_url :: env where
  "env_empty_app_url =
    map_of [(''SLACK_CLIENT_ID'', ''cid''),
            (''SLACK_CLIENT_SECRET'', ''csecret''),
            (''SUPABASE_URL'', ''https://db.example''),
            (''SUPABASE_SERVICE_ROLE_KEY'', ''srk''),
            (''APP_URL'', '''')]"

definition world_of :: "json \<Rightarrow> json \<Rightarrow> world" where
  "world_of tokenData updateError =
    \<lparr>fetch_result = Inr tokenData,
     createClient_result = None,
     update_result = Inr updateError,
     now = ''2024-05-01T12:00:00.000Z''\<rparr>"

definition db_error :: json where
  "db_error = JObj [(''code'', JStr ''42501''), (''message'', JStr ''permission denied'')]"

definition user_row :: "string \<Rightarrow> string \<Rightarrow> row" where
  "user_row uid email =
    map_of [(''id'', JStr uid), (''email'', JStr email), (''slack_team_id'', JStr ''T0'')]"

subsection \<open>Notions the properties are stated with\<close>

text \<open>The payloads of the profile writes of one invocation.\<close>

definition persisted_fields :: "request \<Rightarrow> env \<Rightarrow> world \<Rightarrow> (string \<times> json) list list" where
  "persisted_fields req env w = map payload (db_writes (snd (handler req env w)))"

text \<open>The timed redirect of the success page (lines 163 to 165), to a given target.\<close>

definition timed_redirect :: "string \<Rightarrow> string" where
  "timed_redirect target =
    ''setTimeout(() => {'' @ [CHR 0x0A] @
    ''              window.location.href = '' @ [CHR 0x27] @ target @ [CHR 0x27] @ '';'' @ [CHR 0x0A] @
    ''            }, 2000);''"

definition sample_rows :: "row list" where
  "sample_rows = [user_row ''user-1'' ''ann@example.org'', user_row ''user-2'' ''bob@example.org'']"

section \<open>Properties of the handler\<close>

lemmas sample_defs =
  get_request_def full_env_def env_without_service_key_def env_empty_app_url_def
  world_of_def searchParams_get_def

subsection \<open>The sample inputs\<close>

lemma sample_guards:
  "req_method get_request \<noteq> ''OPTIONS''"
  "truthy_str (searchParams_get (searchParams get_request) ''code'')"
  "truthy_str (searchParams_get (searchParams get_request) ''state'')"
  "searchParams_get (searchParams get_request) ''state'' = Some ''user-1''"
  "truthy_str (full_env ''SLACK_CLIENT_ID'')"
  "truthy_str (full_env ''SLACK_CLIENT_SECRET'')"
  "truthy_str (full_env ''SUPABASE_SERVICE_ROLE_KEY'')"
  by (simp_all add: sample_defs)

lemma sample_world:
  "fetch_result (world_of tokenData updateError) = Inr tokenData"
  "createClient_result (world_of tokenData updateError) = None"
  "update_result (world_of tokenData updateError) = Inr updateError"
  "now (world_of tokenData updateError) = ''2024-05-01T12:00:00.000Z''"
  by (simp_all add: world_of_def)

lemma nested_response_ok:
  "read_prop nested_response ''ok'' = Inr (Some (JBool True))"
  "truthy (Some (accessToken_of nested_response))"
  by (simp_all add: nested_response_def read_prop_def accessToken_of_def coalesce_def or_null_def)

lemma legacy_response_ok:
  "read_prop legacy_response ''ok'' = Inr (Some (JBool True))"
  "truthy (Some (accessToken_of legacy_response))"
  by (simp_all add: legacy_response_def read_prop_def accessToken_of_def coalesce_def or_null_def)

subsection \<open>The handler once the provider has answered with a truthy flag\<close>

lemma or_null_Some: "or_null (Some v) = v"
  by (simp add: or_null_def)

lemma or_str_truthy: "or_str a b = (if truthy_str a then the a else b)"
  by (cases a) (simp_all add: or_str_def)

lemma handler_after_ok:
  assumes "req_method req \<noteq> ''OPTIONS''"
    and "truthy_str (searchParams_get (searchParams req) ''code'')"
    and "truthy_str (searchParams_get (searchParams req) ''state'')"
    and "truthy_str (env ''SLACK_CLIENT_ID'')"
    and "truthy_str (env ''SLACK_CLIENT_SECRET'')"
    and "fetch_result w = Inr tokenData"
    and "read_prop tokenData ''ok'' = Inr ok"
    and "truthy ok"
  shows "db_writes (snd (handler req env w)) =
      (if truthy (Some (accessToken_of tokenData)) \<and> truthy_str (env ''SUPABASE_SERVICE_ROLE_KEY'')
          \<and> createClient_result w = None
       then [\<lparr>client_url = coalesce_str (env ''SUPABASE_URL'') '''',
              client_key = the (env ''SUPABASE_SERVICE_ROLE_KEY''),
              table = ''profiles'',
              payload = [(''slack_access_token'', accessToken_of tokenData),
                         (''slack_team_id'', teamId_of tokenData),
                         (''slack_team_name'', teamName_of tokenData),
                         (''slack_channel'', incomingWebhookChannel_of tokenData),
                         (''slack_webhook_url'', incomingWebhookUrl_of tokenData),
                         (''slack_connected_at'', JStr (now w))],
              eq_filter = (''id'', the (searchParams_get (searchParams req) ''state''))\<rparr>]
       else [])"
  using assms
  by (auto simp add: handler_def try_block_def Let_def db_writes_def or_null_Some
      split: sum.splits option.splits)

lemma handler_success:
  assumes "req_method req \<noteq> ''OPTIONS''"
    and "truthy_str (searchParams_get (searchParams req) ''code'')"
    and "truthy_str (searchParams_get (searchParams req) ''state'')"
    and "truthy_str (env ''SLACK_CLIENT_ID'')"
    and "truthy_str (env ''SLACK_CLIENT_SECRET'')"
    and "fetch_result w = Inr tokenData"
    and "read_prop tokenData ''ok'' = Inr ok"
    and "truthy ok"
    and "truthy (Some (accessToken_of tokenData))"
    and "truthy_str (env ''SUPABASE_SERVICE_ROLE_KEY'')"
    and "createClient_result w = None"
    and "update_result w = Inr updateError"
    and "\<not> truthy (Some updateError)"
  shows "fst (handler req env w) =
      \<lparr>status = 200, headers = [(''Content-Type'', ''text/html'')],
       body = Html (html (or_str (env ''APP_URL'') ''http://localhost:5173''))\<rparr>"
  using assms
  by (simp add: handler_def try_block_def Let_def)

text \<open>Whatever the inputs are, the handler writes to the database at most once.\<close>

lemma db_writes_shape:
  "db_writes (snd (handler req env w)) = []
   \<or> (\<exists>userId tokenData key.
        searchParams_get (searchParams req) ''state'' = Some userId
      \<and> db_writes (snd (handler req env w)) =
         [\<lparr>client_url = coalesce_str (env ''SUPABASE_URL'') '''',
           client_key = key,
           table = ''profiles'',
           payload = [(''slack_access_token'', accessToken_of tokenData),
                      (''slack_team_id'', teamId_of tokenData),
                      (''slack_team_name'', teamName_of tokenData),
                      (''slack_channel'', incomingWebhookChannel_of tokenData),
                      (''slack_webhook_url'', incomingWebhookUrl_of tokenData),
                      (''slack_connected_at'', JStr (now w))],
           eq_filter = (''id'', userId)\<rparr>])"
  by (cases "searchParams_get (searchParams req) ''state''")
     (auto simp add: handler_def try_block_def Let_def db_writes_def or_null_Some
      split: sum.splits option.splits)

subsection \<open>The normalization in the source and in the specification's words\<close>

lemma at_path_one: "at_path v [k] = js_prop v k"
  by (cases "js_prop v k") simp_all

lemma at_path_two: "at_path v [a, b] = opt_chain (js_prop v a) b"
proof (cases "js_prop v a")
  case None
  then show ?thesis by simp
next
  case (Some x)
  then show ?thesis by (cases x) (simp_all split: option.splits)
qed

lemma first_present_two: "first_present v [p, q] = or_null (coalesce (at_path v p) (at_path v q))"
  by (cases "at_path v p" rule: nullish.cases; cases "at_path v q" rule: nullish.cases)
     (simp_all add: or_null_def coalesce_def)

lemma accessToken_of_spec: "accessToken_of r = spec_access_token r"
  by (simp only: accessToken_of_def spec_access_token_def first_present_two at_path_one at_path_two)

lemma teamId_of_spec: "teamId_of r = spec_team_id r"
  by (simp only: teamId_of_def spec_team_id_def first_present_two at_path_one at_path_two)

lemma teamName_of_spec: "teamName_of r = spec_team_name r"
  by (simp only: teamName_of_def spec_team_name_def first_present_two at_path_one at_path_two)

lemma incomingWebhookUrl_of_spec: "incomingWebhookUrl_of r = spec_webhook_url r"
  by (simp only: incomingWebhookUrl_of_def spec_webhook_url_def first_present_two at_path_one
      at_path_two)

lemma incomingWebhookChannel_of_spec: "incomingWebhookChannel_of r = spec_channel r"
  by (simp only: incomingWebhookChannel_of_def spec_channel_def first_present_two at_path_one
      at_path_two)

lemmas of_spec =
  accessToken_of_spec teamId_of_spec teamName_of_spec incomingWebhookUrl_of_spec
  incomingWebhookChannel_of_spec

lemma spec_nested_response:
  "spec_access_token nested_response = JStr ''xoxb-1''"
  "spec_team_id nested_response = JStr ''T1''"
  "spec_team_name nested_response = JStr ''Acme''"
  "spec_channel nested_response = JStr ''#general''"
  "spec_webhook_url nested_response = JStr ''https://hooks/abc''"
  by (simp_all add: nested_response_def spec_access_token_def spec_team_id_def
      spec_team_name_def spec_channel_def spec_webhook_url_def)

lemma spec_legacy_response:
  "spec_access_token legacy_response = JStr ''xoxp-2''"
  "spec_team_id legacy_response = JStr ''T2''"
  "spec_team_name legacy_response = JStr ''Old''"
  "spec_channel legacy_response = JNull"
  "spec_webhook_url legacy_response = JStr ''https://hooks/xyz''"
  by (simp_all add: legacy_response_def spec_access_token_def spec_team_id_def
      spec_team_name_def spec_channel_def spec_webhook_url_def)

lemma singleton_list:
  assumes "length xs = 1" and "\<forall>x \<in> set xs. x = a"
  shows "xs = [a]"
  using assms by (cases xs) simp_all

subsection \<open>The success page\<close>

lemma html_before_split:
  "html_before =
    (with_line_feeds
      ['''',
       ''      <!DOCTYPE html>'',
       ''      <html>'',
       ''        <head>'',
       ''          <title>Slack Connected</title>'',
       ''        </head>'',
       ''        <body>'',
       ''          <h1>Successfully connected to Slack!</h1>'',
       ''          <p>You can close this window and return to the app.</p>'',
       ''          <script>'',
       ''            // Try to close the window''] @ ''            '')
    @ ''window.close();''
    @ ([CHR 0x0A, CHR 0x0A] @ ''            // If window doesn't close, redirect after 2 seconds''
       @ [CHR 0x0A] @ ''            '')
    @ (''setTimeout(() => {'' @ [CHR 0x0A] @ ''              window.location.href = '' @ [CHR 0x27])"
  by (simp add: html_before_def with_line_feeds_def)

lemma html_after_split:
  "html_after =
    ([CHR 0x27] @ '';'' @ [CHR 0x0A] @ ''            }, 2000);'')
    @ ([CHR 0x0A] @ with_line_feeds [''          </script>'', ''        </body>'', ''      </html>'']
       @ ''    '')"
  by (simp add: html_after_def with_line_feeds_def)

lemma window_close_in_page: "sublist ''window.close();'' (html target)"
proof -
  have "\<exists>ps ss. html_before = ps @ ''window.close();'' @ ss"
    by (subst html_before_split) blast
  then obtain ps ss where "html_before = ps @ ''window.close();'' @ ss"
    by blast
  then have "html target = ps @ ''window.close();'' @ (ss @ target @ html_after)"
    unfolding html_def by simp
  then show ?thesis
    unfolding sublist_def by blast
qed

lemma timed_redirect_in_page: "sublist (timed_redirect target) (html target)"
proof -
  have "\<exists>a. html_before =
      a @ ''setTimeout(() => {'' @ [CHR 0x0A] @ ''              window.location.href = '' @ [CHR 0x27]"
    by (subst html_before_split) (simp only: append_assoc [symmetric], blast)
  then obtain a where a: "html_before =
      a @ ''setTimeout(() => {'' @ [CHR 0x0A] @ ''              window.location.href = '' @ [CHR 0x27]"
    by blast
  have "\<exists>b. html_after = ([CHR 0x27] @ '';'' @ [CHR 0x0A] @ ''            }, 2000);'') @ b"
    by (subst html_after_split) blast
  then obtain b where b:
    "html_after = ([CHR 0x27] @ '';'' @ [CHR 0x0A] @ ''            }, 2000);'') @ b"
    by blast
  have "html target = a @ timed_redirect target @ b"
    unfolding html_def timed_redirect_def by (subst a, subst b) simp
  then show ?thesis
    unfolding sublist_def by blast
qed

subsection \<open>The profiles table\<close>

lemma apply_update_length: "length (apply_update u rows) = length rows"
  by (simp add: apply_update_def)

lemma apply_update_nth:
  "i < length rows \<Longrightarrow>
   apply_update u rows ! i =
     (if row_matches (eq_filter u) (rows ! i) then rows ! i ++ map_of (payload u) else rows ! i)"
  by (simp add: apply_update_def)

lemma apply_update_no_match:
  assumes "\<forall>r \<in> set rows. \<not> row_matches (eq_filter u) r"
  shows "apply_update u rows = rows"
  using assms by (simp add: apply_update_def map_idI)

lemma map_add_outside: "c \<notin> set (map fst p) \<Longrightarrow> (r ++ map_of p) c = r c"
  by (simp add: map_add_def map_of_eq_None_iff [THEN iffD2])

lemma map_add_inside: "c \<in> set (map fst p) \<Longrightarrow> (r ++ map_of p) c = map_of p c"
  by (auto simp add: map_add_def map_of_eq_None_iff split: option.splits)

subsection \<open>Preflight\<close>

text \<open>
  Claim C8. A request whose method is OPTIONS gets status 200, no body and the three CORS
  headers, whatever its query string, the environment and the collaborators are; the handler
  performs no effect at all: no token exchange, no database write.
\<close>

theorem options_preflight:
  assumes "req_method req = ''OPTIONS''"
  shows "handler req env w =
    (\<lparr>status = 200,
      headers =
        [(''Access-Control-Allow-Origin'', ''*''),
         (''Access-Control-Allow-Methods'', ''GET, POST, PUT, DELETE, OPTIONS''),
         (''Access-Control-Allow-Headers'', ''Content-Type, Authorization, X-Client-Info, Apikey'')],
      body = NoBody\<rparr>,
     [])"
  using assms by (simp add: handler_def corsHeaders_def)

theorem options_preflight_witness:
  "req_method \<lparr>req_method = ''OPTIONS'', searchParams = []\<rparr> = ''OPTIONS''
   \<and> handler \<lparr>req_method = ''OPTIONS'', searchParams = []\<rparr> (\<lambda>k. None) (world_of JNull JNull) =
    (\<lparr>status = 200,
      headers =
        [(''Access-Control-Allow-Origin'', ''*''),
         (''Access-Control-Allow-Methods'', ''GET, POST, PUT, DELETE, OPTIONS''),
         (''Access-Control-Allow-Headers'', ''Content-Type, Authorization, X-Client-Info, Apikey'')],
      body = NoBody\<rparr>,
     [])"
  using options_preflight
    [of "\<lparr>req_method = ''OPTIONS'', searchParams = []\<rparr>" "\<lambda>k. None" "world_of JNull JNull"]
  by simp

subsection \<open>Parameter validation\<close>

text \<open>
  Claim C3. A request other than OPTIONS whose query string lacks \<^verbatim>\<open>code\<close> or lacks
  \<^verbatim>\<open>state\<close> gets status 400 and the JSON body with the one member
  \<^verbatim>\<open>error: "Missing code or state parameter"\<close>; the handler performs neither the token
  exchange nor the profile write.
\<close>

theorem missing_parameter:
  assumes "req_method req \<noteq> ''OPTIONS''"
    and "searchParams_get (searchParams req) ''code'' = None
       \<or> searchParams_get (searchParams req) ''state'' = None"
  shows "status (fst (handler req env w)) = 400
       \<and> body (fst (handler req env w))
           = Json (JObj [(''error'', JStr ''Missing code or state parameter'')])
       \<and> token_exchanges (snd (handler req env w)) = []
       \<and> db_writes (snd (handler req env w)) = []"
  using assms
  by (auto simp add: handler_def try_block_def json_response_def error_json_def
      token_exchanges_def db_writes_def)

theorem missing_parameter_witness:
  "searchParams_get [(''code'', ''c0de'')] ''state'' = None
   \<and> status (fst (handler \<lparr>req_method = ''GET'', searchParams = [(''code'', ''c0de'')]\<rparr>
                  full_env (world_of nested_response JNull))) = 400
   \<and> body (fst (handler \<lparr>req_method = ''GET'', searchParams = [(''code'', ''c0de'')]\<rparr>
                  full_env (world_of nested_response JNull)))
       = Json (JObj [(''error'', JStr ''Missing code or state parameter'')])
   \<and> token_exchanges (snd (handler \<lparr>req_method = ''GET'', searchParams = [(''code'', ''c0de'')]\<rparr>
                  full_env (world_of nested_response JNull))) = []
   \<and> db_writes (snd (handler \<lparr>req_method = ''GET'', searchParams = [(''code'', ''c0de'')]\<rparr>
                  full_env (world_of nested_response JNull))) = []"
  using missing_parameter
    [of "\<lparr>req_method = ''GET'', searchParams = [(''code'', ''c0de'')]\<rparr>"
        full_env "world_of nested_response JNull"]
  by (simp add: searchParams_get_def)

subsection \<open>Provider rejection\<close>

text \<open>
  Claim C4. When the exchange is made and the \<^verbatim>\<open>ok\<close> flag read from the provider's response
  is falsy, the handler answers 400 with the JSON body whose one member is
  \<^verbatim>\<open>error: "Failed to authenticate with Slack"\<close>. The body is this constant for every such
  response: nothing of the provider's payload, its error text included, is in it. No profile
  write occurs.
\<close>

theorem provider_rejection:
  assumes "req_method req \<noteq> ''OPTIONS''"
    and "truthy_str (searchParams_get (searchParams req) ''code'')"
    and "truthy_str (searchParams_get (searchParams req) ''state'')"
    and "truthy_str (env ''SLACK_CLIENT_ID'')"
    and "truthy_str (env ''SLACK_CLIENT_SECRET'')"
    and "fetch_result w = Inr tokenData"
    and "read_prop tokenData ''ok'' = Inr ok"
    and "\<not> truthy ok"
  shows "status (fst (handler req env w)) = 400
       \<and> body (fst (handler req env w))
           = Json (JObj [(''error'', JStr ''Failed to authenticate with Slack'')])
       \<and> db_writes (snd (handler req env w)) = []"
  using assms
  by (simp add: handler_def try_block_def json_response_def error_json_def db_writes_def Let_def)

theorem provider_rejection_witness:
  "read_prop rejected_response ''ok'' = Inr (Some (JBool False))
   \<and> status (fst (handler get_request full_env (world_of rejected_response JNull))) = 400
   \<and> body (fst (handler get_request full_env (world_of rejected_response JNull)))
       = Json (JObj [(''error'', JStr ''Failed to authenticate with Slack'')])
   \<and> db_writes (snd (handler get_request full_env (world_of rejected_response JNull))) = []"
  using provider_rejection
    [of get_request full_env "world_of rejected_response JNull" rejected_response
        "Some (JBool False)"]
  by (simp add: sample_defs rejected_response_def read_prop_def)

subsection \<open>No access token\<close>

text \<open>
  Claim C5. When the exchange is made, the \<^verbatim>\<open>ok\<close> flag is truthy and the response has neither
  a top-level \<^verbatim>\<open>access_token\<close> nor an \<^verbatim>\<open>authed_user.access_token\<close>, the handler answers 400
  with the JSON body whose one member is \<^verbatim>\<open>error: "Slack did not return an access token"\<close>,
  and performs no profile write.
\<close>

theorem no_access_token:
  assumes "req_method req \<noteq> ''OPTIONS''"
    and "truthy_str (searchParams_get (searchParams req) ''code'')"
    and "truthy_str (searchParams_get (searchParams req) ''state'')"
    and "truthy_str (env ''SLACK_CLIENT_ID'')"
    and "truthy_str (env ''SLACK_CLIENT_SECRET'')"
    and "fetch_result w = Inr tokenData"
    and "read_prop tokenData ''ok'' = Inr ok"
    and "truthy ok"
    and "nullish (js_prop tokenData ''access_token'')"
    and "nullish (opt_chain (js_prop tokenData ''authed_user'') ''access_token'')"
  shows "status (fst (handler req env w)) = 400
       \<and> body (fst (handler req env w))
           = Json (JObj [(''error'', JStr ''Slack did not return an access token'')])
       \<and> db_writes (snd (handler req env w)) = []"
proof -
  have "accessToken_of tokenData = JNull"
    using assms(9,10)
    by (cases "opt_chain (js_prop tokenData ''authed_user'') ''access_token''" rule: nullish.cases)
       (simp_all add: accessToken_of_def coalesce_def or_null_def)
  then show ?thesis
    using assms(1-8)
    by (simp add: handler_def try_block_def json_response_def error_json_def db_writes_def Let_def)
qed

theorem no_access_token_witness:
  "read_prop tokenless_response ''ok'' = Inr (Some (JBool True))
   \<and> nullish (js_prop tokenless_response ''access_token'')
   \<and> nullish (opt_chain (js_prop tokenless_response ''authed_user'') ''access_token'')
   \<and> status (fst (handler get_request full_env (world_of tokenless_response JNull))) = 400
   \<and> body (fst (handler get_request full_env (world_of tokenless_response JNull)))
       = Json (JObj [(''error'', JStr ''Slack did not return an access token'')])
   \<and> db_writes (snd (handler get_request full_env (world_of tokenless_response JNull))) = []"
  using no_access_token
    [of get_request full_env "world_of tokenless_response JNull" tokenless_response
        "Some (JBool True)"]
  by (simp add: sample_defs tokenless_response_def read_prop_def)

subsection \<open>The service role key\<close>

text \<open>
  Claim C1, amended. For a request other than OPTIONS with a non-empty \<^verbatim>\<open>code\<close> and \<^verbatim>\<open>state\<close>,
  in an environment where \<^verbatim>\<open>SLACK_CLIENT_ID\<close> and \<^verbatim>\<open>SLACK_CLIENT_SECRET\<close> are set and not
  empty and \<^verbatim>\<open>SUPABASE_SERVICE_ROLE_KEY\<close> is missing or empty, the handler issues the token
  exchange, once, and performs no profile write; when the provider's response has a truthy
  \<^verbatim>\<open>ok\<close> flag and a truthy normalized access token, the answer is 500 with the JSON body whose
  one member is \<^verbatim>\<open>error: "Server misconfigured: SUPABASE_SERVICE_ROLE_KEY missing"\<close>. The
  check of the service role key comes after the token exchange, not before it.
\<close>

theorem service_key_checked_after_exchange:
  assumes "req_method req \<noteq> ''OPTIONS''"
    and "truthy_str (searchParams_get (searchParams req) ''code'')"
    and "truthy_str (searchParams_get (searchParams req) ''state'')"
    and "truthy_str (env ''SLACK_CLIENT_ID'')"
    and "truthy_str (env ''SLACK_CLIENT_SECRET'')"
    and "\<not> truthy_str (env ''SUPABASE_SERVICE_ROLE_KEY'')"
  shows "token_exchanges (snd (handler req env w))
           = [\<lparr>fetch_url = ''https://slack.com/api/oauth.v2.access'',
               fetch_method = ''POST'',
               fetch_headers = [(''Content-Type'', ''application/x-www-form-urlencoded'')],
               fetch_body =
                 [(''client_id'', the (env ''SLACK_CLIENT_ID'')),
                  (''client_secret'', the (env ''SLACK_CLIENT_SECRET'')),
                  (''code'', the (searchParams_get (searchParams req) ''code'')),
                  (''redirect_uri'',
                   template_str (env ''SUPABASE_URL'') @ ''/functions/v1/slack-oauth-callback'')]\<rparr>]
       \<and> db_writes (snd (handler req env w)) = []
       \<and> (fetch_result w = Inr tokenData \<and> read_prop tokenData ''ok'' = Inr ok \<and> truthy ok
            \<and> truthy (Some (accessToken_of tokenData))
          \<longrightarrow> status (fst (handler req env w)) = 500
              \<and> body (fst (handler req env w))
                  = Json (JObj [(''error'',
                       JStr ''Server misconfigured: SUPABASE_SERVICE_ROLE_KEY missing'')]))"
  using assms
  by (auto simp add: handler_def try_block_def Let_def db_writes_def token_exchanges_def
      json_response_def error_json_def
      split: sum.splits option.splits)

theorem service_key_checked_after_exchange_witness:
  "\<not> truthy_str (env_without_service_key ''SUPABASE_SERVICE_ROLE_KEY'')
   \<and> read_prop nested_response ''ok'' = Inr (Some (JBool True))
   \<and> truthy (Some (accessToken_of nested_response))
   \<and> length (token_exchanges
        (snd (handler get_request env_without_service_key (world_of nested_response JNull)))) = 1
   \<and> db_writes (snd (handler get_request env_without_service_key (world_of nested_response JNull)))
       = []
   \<and> status (fst (handler get_request env_without_service_key (world_of nested_response JNull)))
       = 500
   \<and> body (fst (handler get_request env_without_service_key (world_of nested_response JNull)))
       = Json (JObj [(''error'', JStr ''Server misconfigured: SUPABASE_SERVICE_ROLE_KEY missing'')])"
  using service_key_checked_after_exchange
    [of get_request env_without_service_key "world_of nested_response JNull" nested_response
        "Some (JBool True)"]
  by (simp add: sample_defs nested_response_ok)

text \<open>
  The claim as the specification has it puts the check before the exchange. It fails for the
  sample request in the environment without the key, when the provider rejects the code: the
  exchange has been issued, and the answer is the provider rejection, 400.
\<close>

theorem service_key_checked_first_counterexample:
  "truthy_str (searchParams_get (searchParams get_request) ''code'')
   \<and> truthy_str (searchParams_get (searchParams get_request) ''state'')
   \<and> truthy_str (env_without_service_key ''SLACK_CLIENT_ID'')
   \<and> truthy_str (env_without_service_key ''SLACK_CLIENT_SECRET'')
   \<and> env_without_service_key ''SUPABASE_SERVICE_ROLE_KEY'' = None
   \<and> status (fst (handler get_request env_without_service_key (world_of rejected_response JNull)))
       = 400
   \<and> body (fst (handler get_request env_without_service_key (world_of rejected_response JNull)))
       = Json (JObj [(''error'', JStr ''Failed to authenticate with Slack'')])
   \<and> token_exchanges
        (snd (handler get_request env_without_service_key (world_of rejected_response JNull)))
       = [\<lparr>fetch_url = ''https://slack.com/api/oauth.v2.access'',
           fetch_method = ''POST'',
           fetch_headers = [(''Content-Type'', ''application/x-www-form-urlencoded'')],
           fetch_body =
             [(''client_id'', ''cid''), (''client_secret'', ''csecret''), (''code'', ''c0de''),
              (''redirect_uri'', ''https://db.example/functions/v1/slack-oauth-callback'')]\<rparr>]"
  by (simp add: sample_defs rejected_response_def handler_def try_block_def read_prop_def
      json_response_def error_json_def token_exchanges_def template_str_def Let_def)

subsection \<open>Field normalization\<close>

text \<open>
  Claim C2. When the provider's response has a truthy \<^verbatim>\<open>ok\<close> flag, every profile write of the
  invocation carries the fields as the specification words them: the access token is the
  top-level \<^verbatim>\<open>access_token\<close> if present, else \<^verbatim>\<open>authed_user.access_token\<close>, else null; the team
  id is \<^verbatim>\<open>team.id\<close>, else \<^verbatim>\<open>team_id\<close>, else null; the team name is \<^verbatim>\<open>team.name\<close>, else
  \<^verbatim>\<open>team_name\<close>, else null; the webhook URL is \<^verbatim>\<open>incoming_webhook.url\<close>, else
  \<^verbatim>\<open>incoming_webhook_url\<close>, else null; the channel is \<^verbatim>\<open>incoming_webhook.channel\<close>, else
  \<^verbatim>\<open>incoming_webhook.channel_id\<close>, else null. The write is made when the token is truthy, the
  service role key is there and the client is created. For the nested sample response the
  fields are "xoxb-1", "T1", "Acme", "#general", "https://hooks/abc"; for the legacy one they
  are "xoxp-2", "T2", "Old", "https://hooks/xyz", with a null channel.
\<close>

theorem normalized_fields_persisted:
  assumes "req_method req \<noteq> ''OPTIONS''"
    and "truthy_str (searchParams_get (searchParams req) ''code'')"
    and "truthy_str (searchParams_get (searchParams req) ''state'')"
    and "truthy_str (env ''SLACK_CLIENT_ID'')"
    and "truthy_str (env ''SLACK_CLIENT_SECRET'')"
    and "fetch_result w = Inr tokenData"
    and "read_prop tokenData ''ok'' = Inr ok"
    and "truthy ok"
  shows "(\<forall>fields \<in> set (persisted_fields req env w).
            fields = [(''slack_access_token'', spec_access_token tokenData),
                      (''slack_team_id'', spec_team_id tokenData),
                      (''slack_team_name'', spec_team_name tokenData),
                      (''slack_channel'', spec_channel tokenData),
                      (''slack_webhook_url'', spec_webhook_url tokenData),
                      (''slack_connected_at'', JStr (now w))])
       \<and> (truthy (Some (spec_access_token tokenData))
            \<and> truthy_str (env ''SUPABASE_SERVICE_ROLE_KEY'')
            \<and> createClient_result w = None
          \<longrightarrow> length (persisted_fields req env w) = 1)
       \<and> (tokenData = nested_response \<longrightarrow>
            (\<forall>fields \<in> set (persisted_fields req env w).
               fields = [(''slack_access_token'', JStr ''xoxb-1''),
                         (''slack_team_id'', JStr ''T1''),
                         (''slack_team_name'', JStr ''Acme''),
                         (''slack_channel'', JStr ''#general''),
                         (''slack_webhook_url'', JStr ''https://hooks/abc''),
                         (''slack_connected_at'', JStr (now w))]))
       \<and> (tokenData = legacy_response \<longrightarrow>
            (\<forall>fields \<in> set (persisted_fields req env w).
               fields = [(''slack_access_token'', JStr ''xoxp-2''),
                         (''slack_team_id'', JStr ''T2''),
                         (''slack_team_name'', JStr ''Old''),
                         (''slack_channel'', JNull),
                         (''slack_webhook_url'', JStr ''https://hooks/xyz''),
                         (''slack_connected_at'', JStr (now w))]))"
proof -
  note ws = handler_after_ok [OF assms]
  have general: "\<forall>fields \<in> set (persisted_fields req env w).
            fields = [(''slack_access_token'', spec_access_token tokenData),
                      (''slack_team_id'', spec_team_id tokenData),
                      (''slack_team_name'', spec_team_name tokenData),
                      (''slack_channel'', spec_channel tokenData),
                      (''slack_webhook_url'', spec_webhook_url tokenData),
                      (''slack_connected_at'', JStr (now w))]"
    by (simp add: persisted_fields_def ws of_spec)
  have issued: "truthy (Some (spec_access_token tokenData))
            \<and> truthy_str (env ''SUPABASE_SERVICE_ROLE_KEY'')
            \<and> createClient_result w = None
          \<longrightarrow> length (persisted_fields req env w) = 1"
    by (simp add: persisted_fields_def ws of_spec)
  from general have nested: "tokenData = nested_response \<longrightarrow>
            (\<forall>fields \<in> set (persisted_fields req env w).
               fields = [(''slack_access_token'', JStr ''xoxb-1''),
                         (''slack_team_id'', JStr ''T1''),
                         (''slack_team_name'', JStr ''Acme''),
                         (''slack_channel'', JStr ''#general''),
                         (''slack_webhook_url'', JStr ''https://hooks/abc''),
                         (''slack_connected_at'', JStr (now w))])"
    using spec_nested_response by metis
  from general have legacy: "tokenData = legacy_response \<longrightarrow>
            (\<forall>fields \<in> set (persisted_fields req env w).
               fields = [(''slack_access_token'', JStr ''xoxp-2''),
                         (''slack_team_id'', JStr ''T2''),
                         (''slack_team_name'', JStr ''Old''),
                         (''slack_channel'', JNull),
                         (''slack_webhook_url'', JStr ''https://hooks/xyz''),
                         (''slack_connected_at'', JStr (now w))])"
    using spec_legacy_response by metis
  from general issued nested legacy show ?thesis by blast
qed

theorem normalized_fields_persisted_witness:
  "persisted_fields get_request full_env (world_of nested_response JNull)
     = [[(''slack_access_token'', JStr ''xoxb-1''),
         (''slack_team_id'', JStr ''T1''),
         (''slack_team_name'', JStr ''Acme''),
         (''slack_channel'', JStr ''#general''),
         (''slack_webhook_url'', JStr ''https://hooks/abc''),
         (''slack_connected_at'', JStr ''2024-05-01T12:00:00.000Z'')]]
   \<and> persisted_fields get_request full_env (world_of legacy_response JNull)
     = [[(''slack_access_token'', JStr ''xoxp-2''),
         (''slack_team_id'', JStr ''T2''),
         (''slack_team_name'', JStr ''Old''),
         (''slack_channel'', JNull),
         (''slack_webhook_url'', JStr ''https://hooks/xyz''),
         (''slack_connected_at'', JStr ''2024-05-01T12:00:00.000Z'')]]"
proof
  note n = normalized_fields_persisted
    [OF sample_guards(1-3,5,6) sample_world(1) nested_response_ok(1), of JNull]
  from n have "length (persisted_fields get_request full_env (world_of nested_response JNull)) = 1"
    using nested_response_ok(2) by (simp add: accessToken_of_spec sample_guards sample_world)
  moreover from n have "\<forall>fields \<in> set (persisted_fields get_request full_env (world_of nested_response JNull)).
      fields = [(''slack_access_token'', JStr ''xoxb-1''),
         (''slack_team_id'', JStr ''T1''),
         (''slack_team_name'', JStr ''Acme''),
         (''slack_channel'', JStr ''#general''),
         (''slack_webhook_url'', JStr ''https://hooks/abc''),
         (''slack_connected_at'', JStr ''2024-05-01T12:00:00.000Z'')]"
    by (simp add: sample_world)
  ultimately show "persisted_fields get_request full_env (world_of nested_response JNull)
     = [[(''slack_access_token'', JStr ''xoxb-1''),
         (''slack_team_id'', JStr ''T1''),
         (''slack_team_name'', JStr ''Acme''),
         (''slack_channel'', JStr ''#general''),
         (''slack_webhook_url'', JStr ''https://hooks/abc''),
         (''slack_connected_at'', JStr ''2024-05-01T12:00:00.000Z'')]]"
    by (rule singleton_list)
next
  note l = normalized_fields_persisted
    [OF sample_guards(1-3,5,6) sample_world(1) legacy_response_ok(1), of JNull]
  from l have "length (persisted_fields get_request full_env (world_of legacy_response JNull)) = 1"
    using legacy_response_ok(2) by (simp add: accessToken_of_spec sample_guards sample_world)
  moreover from l have "\<forall>fields \<in> set (persisted_fields get_request full_env (world_of legacy_response JNull)).
      fields = [(''slack_access_token'', JStr ''xoxp-2''),
         (''slack_team_id'', JStr ''T2''),
         (''slack_team_name'', JStr ''Old''),
         (''slack_channel'', JNull),
         (''slack_webhook_url'', JStr ''https://hooks/xyz''),
         (''slack_connected_at'', JStr ''2024-05-01T12:00:00.000Z'')]"
    by (simp add: sample_world)
  ultimately show "persisted_fields get_request full_env (world_of legacy_response JNull)
     = [[(''slack_access_token'', JStr ''xoxp-2''),
         (''slack_team_id'', JStr ''T2''),
         (''slack_team_name'', JStr ''Old''),
         (''slack_channel'', JNull),
         (''slack_webhook_url'', JStr ''https://hooks/xyz''),
         (''slack_connected_at'', JStr ''2024-05-01T12:00:00.000Z'')]]"
    by (rule singleton_list)
qed

subsection \<open>Persistence failure\<close>

text \<open>
  Claim C6. In every invocation in which the database update is made and reports an error,
  the handler answers 500 with a JSON body of two members: the message
  \<^verbatim>\<open>"Failed to save Slack connection"\<close> under \<^verbatim>\<open>error\<close> and the database's error under
  \<^verbatim>\<open>details\<close>. The answer is not the 200 HTML page.
\<close>

theorem update_error_reported:
  assumes "db_writes (snd (handler req env w)) \<noteq> []"
    and "update_result w = Inr updateError"
    and "truthy (Some updateError)"
  shows "status (fst (handler req env w)) = 500
       \<and> body (fst (handler req env w))
           = Json (JObj [(''error'', JStr ''Failed to save Slack connection''),
                         (''details'', updateError)])
       \<and> status (fst (handler req env w)) \<noteq> 200
       \<and> body (fst (handler req env w)) \<noteq> Html page"
  using assms
  by (auto simp add: handler_def try_block_def Let_def db_writes_def json_response_def
      split: if_splits sum.splits option.splits)

theorem update_error_reported_witness:
  "db_writes (snd (handler get_request full_env (world_of nested_response db_error))) \<noteq> []
   \<and> truthy (Some db_error)
   \<and> status (fst (handler get_request full_env (world_of nested_response db_error))) = 500
   \<and> body (fst (handler get_request full_env (world_of nested_response db_error)))
       = Json (JObj [(''error'', JStr ''Failed to save Slack connection''),
                     (''details'',
                      JObj [(''code'', JStr ''42501''), (''message'', JStr ''permission denied'')])])"
proof -
  have issued:
    "db_writes (snd (handler get_request full_env (world_of nested_response db_error))) \<noteq> []"
    by (simp add: handler_after_ok [OF sample_guards(1-3,5,6) sample_world(1) nested_response_ok(1)]
        nested_response_ok sample_guards sample_world)
  have err: "truthy (Some db_error)"
    by (simp add: db_error_def)
  from update_error_reported [OF issued sample_world(3) err] issued err
  show ?thesis
    by (simp add: db_error_def)
qed

subsection \<open>The success page\<close>

text \<open>
  Claim C7, amended. An invocation that passes every step (a non-empty \<^verbatim>\<open>code\<close> and \<^verbatim>\<open>state\<close>,
  the three credentials set and not empty, a provider response with a truthy \<^verbatim>\<open>ok\<close> flag and
  a truthy token, a client created, an update that reports no error) answers 200 with the one
  header \<^verbatim>\<open>Content-Type: text/html\<close> and a page that holds the \<^verbatim>\<open>window.close();\<close> script and
  the timed redirect. The redirect's target is the value of \<^verbatim>\<open>APP_URL\<close> when that is set and
  not empty, and \<^verbatim>\<open>http://localhost:5173\<close> when it is unset or empty.
\<close>

theorem success_page:
  assumes "req_method req \<noteq> ''OPTIONS''"
    and "truthy_str (searchParams_get (searchParams req) ''code'')"
    and "truthy_str (searchParams_get (searchParams req) ''state'')"
    and "truthy_str (env ''SLACK_CLIENT_ID'')"
    and "truthy_str (env ''SLACK_CLIENT_SECRET'')"
    and "fetch_result w = Inr tokenData"
    and "read_prop tokenData ''ok'' = Inr ok"
    and "truthy ok"
    and "truthy (Some (accessToken_of tokenData))"
    and "truthy_str (env ''SUPABASE_SERVICE_ROLE_KEY'')"
    and "createClient_result w = None"
    and "update_result w = Inr updateError"
    and "\<not> truthy (Some updateError)"
    and "target = (if truthy_str (env ''APP_URL'') then the (env ''APP_URL'')
                   else ''http://localhost:5173'')"
  shows "status (fst (handler req env w)) = 200
       \<and> headers (fst (handler req env w)) = [(''Content-Type'', ''text/html'')]
       \<and> body (fst (handler req env w)) = Html (html target)
       \<and> sublist ''window.close();'' (html target)
       \<and> sublist (timed_redirect target) (html target)"
  using handler_success [OF assms(1-13)] assms(14)
  by (simp add: or_str_truthy window_close_in_page timed_redirect_in_page)

theorem success_page_witness:
  "truthy (Some (accessToken_of nested_response))
   \<and> (status (fst (handler get_request full_env (world_of nested_response JNull))) = 200
   \<and> headers (fst (handler get_request full_env (world_of nested_response JNull)))
       = [(''Content-Type'', ''text/html'')]
   \<and> body (fst (handler get_request full_env (world_of nested_response JNull)))
       = Html (html ''https://app.example'')
   \<and> sublist ''window.close();'' (html ''https://app.example'')
   \<and> sublist (timed_redirect ''https://app.example'') (html ''https://app.example''))"
proof -
  have page:
    "status (fst (handler get_request full_env (world_of nested_response JNull))) = 200
   \<and> headers (fst (handler get_request full_env (world_of nested_response JNull)))
       = [(''Content-Type'', ''text/html'')]
   \<and> body (fst (handler get_request full_env (world_of nested_response JNull)))
       = Html (html ''https://app.example'')
   \<and> sublist ''window.close();'' (html ''https://app.example'')
   \<and> sublist (timed_redirect ''https://app.example'') (html ''https://app.example'')"
    by (rule success_page [where tokenData = nested_response and ok = "Some (JBool True)"
          and updateError = JNull])
       (simp_all add: sample_guards sample_world nested_response_ok, simp add: full_env_def)
  from nested_response_ok(2) page show ?thesis by (rule conjI)
qed

text \<open>
  The claim as the specification has it takes the target to be the value of \<^verbatim>\<open>APP_URL\<close>
  whenever the variable is set. It fails where \<^verbatim>\<open>APP_URL\<close> is set to the empty string: the
  page redirects to \<^verbatim>\<open>http://localhost:5173\<close>, which is not the page that redirects to the
  variable's value.
\<close>

theorem success_page_counterexample:
  "env_empty_app_url ''APP_URL'' = Some ''''
   \<and> status (fst (handler get_request env_empty_app_url (world_of nested_response JNull))) = 200
   \<and> body (fst (handler get_request env_empty_app_url (world_of nested_response JNull)))
       = Html (html ''http://localhost:5173'')
   \<and> html ''http://localhost:5173'' \<noteq> html ''''"
  by (simp add: sample_defs nested_response_def handler_def try_block_def read_prop_def
      accessToken_of_def coalesce_def or_null_def or_str_def html_def Let_def)

subsection \<open>What the profile update touches\<close>

text \<open>
  Claim C9. The handler writes to the database at most once, and only by an update. The
  update is on the table \<^verbatim>\<open>profiles\<close>, its payload has exactly the columns
  \<^verbatim>\<open>slack_access_token\<close>, \<^verbatim>\<open>slack_team_id\<close>, \<^verbatim>\<open>slack_team_name\<close>, \<^verbatim>\<open>slack_channel\<close>,
  \<^verbatim>\<open>slack_webhook_url\<close> and \<^verbatim>\<open>slack_connected_at\<close>, and its filter is \<^verbatim>\<open>id\<close> equal to the
  \<^verbatim>\<open>state\<close> parameter. Applied to any table, it keeps the number of rows; it leaves every row
  whose id is not \<^verbatim>\<open>state\<close> as it was; in a row whose id is \<^verbatim>\<open>state\<close> it gives the six columns
  the payload's values and leaves every other column as it was.
\<close>

theorem profile_update_frame:
  "length (db_writes (snd (handler req env w))) \<le> 1
   \<and> (\<forall>u \<in> set (db_writes (snd (handler req env w))).
        table u = ''profiles''
      \<and> map fst (payload u) = slack_columns
      \<and> (\<exists>userId. searchParams_get (searchParams req) ''state'' = Some userId
            \<and> eq_filter u = (''id'', userId)
            \<and> length (apply_update u rows) = length rows
            \<and> (\<forall>i < length rows.
                  (\<forall>c. c \<notin> set slack_columns \<longrightarrow> (apply_update u rows ! i) c = (rows ! i) c)
                \<and> ((rows ! i) ''id'' \<noteq> Some (JStr userId) \<longrightarrow>
                      apply_update u rows ! i = rows ! i)
                \<and> ((rows ! i) ''id'' = Some (JStr userId) \<longrightarrow>
                     (\<forall>c \<in> set slack_columns.
                        (apply_update u rows ! i) c = map_of (payload u) c)))))"
proof -
  from db_writes_shape [of req env w]
  show ?thesis
  proof
    assume "db_writes (snd (handler req env w)) = []"
    then show ?thesis by simp
  next
    assume "\<exists>userId tokenData key.
        searchParams_get (searchParams req) ''state'' = Some userId
      \<and> db_writes (snd (handler req env w)) =
         [\<lparr>client_url = coalesce_str (env ''SUPABASE_URL'') '''',
           client_key = key,
           table = ''profiles'',
           payload = [(''slack_access_token'', accessToken_of tokenData),
                      (''slack_team_id'', teamId_of tokenData),
                      (''slack_team_name'', teamName_of tokenData),
                      (''slack_channel'', incomingWebhookChannel_of tokenData),
                      (''slack_webhook_url'', incomingWebhookUrl_of tokenData),
                      (''slack_connected_at'', JStr (now w))],
           eq_filter = (''id'', userId)\<rparr>]"
    then obtain userId u where st: "searchParams_get (searchParams req) ''state'' = Some userId"
      and ws: "db_writes (snd (handler req env w)) = [u]"
      and tb: "table u = ''profiles''"
      and cols: "map fst (payload u) = slack_columns"
      and flt: "eq_filter u = (''id'', userId)"
      by (auto simp add: slack_columns_def)
    have rows: "\<forall>i < length rows.
                  (\<forall>c. c \<notin> set slack_columns \<longrightarrow> (apply_update u rows ! i) c = (rows ! i) c)
                \<and> ((rows ! i) ''id'' \<noteq> Some (JStr userId) \<longrightarrow>
                      apply_update u rows ! i = rows ! i)
                \<and> ((rows ! i) ''id'' = Some (JStr userId) \<longrightarrow>
                     (\<forall>c \<in> set slack_columns.
                        (apply_update u rows ! i) c = map_of (payload u) c))"
    proof (intro allI impI conjI ballI)
      fix i c assume "i < length rows" "c \<notin> set slack_columns"
      then show "(apply_update u rows ! i) c = (rows ! i) c"
        using cols by (simp add: apply_update_nth map_add_outside)
    next
      fix i assume "i < length rows" "(rows ! i) ''id'' \<noteq> Some (JStr userId)"
      then show "apply_update u rows ! i = rows ! i"
        using flt by (simp add: apply_update_nth row_matches_def)
    next
      fix i c
      assume "i < length rows" "(rows ! i) ''id'' = Some (JStr userId)" "c \<in> set slack_columns"
      then show "(apply_update u rows ! i) c = map_of (payload u) c"
        using flt cols by (simp add: apply_update_nth row_matches_def map_add_inside)
    qed
    from st ws tb cols flt rows show ?thesis
      by (simp add: apply_update_length)
  qed
qed

theorem profile_update_frame_witness:
  "length (db_writes (snd (handler get_request full_env (world_of nested_response JNull)))) = 1
   \<and> map fst (payload
        (hd (db_writes (snd (handler get_request full_env (world_of nested_response JNull))))))
       = slack_columns
   \<and> length (apply_update
        (hd (db_writes (snd (handler get_request full_env (world_of nested_response JNull)))))
        sample_rows) = 2
   \<and> (apply_update
        (hd (db_writes (snd (handler get_request full_env (world_of nested_response JNull)))))
        sample_rows ! 0) ''email'' = Some (JStr ''ann@example.org'')
   \<and> (apply_update
        (hd (db_writes (snd (handler get_request full_env (world_of nested_response JNull)))))
        sample_rows ! 0) ''slack_team_id'' = Some (JStr ''T1'')
   \<and> apply_update
        (hd (db_writes (snd (handler get_request full_env (world_of nested_response JNull)))))
        sample_rows ! 1 = user_row ''user-2'' ''bob@example.org''"
proof -
  let ?ws = "db_writes (snd (handler get_request full_env (world_of nested_response JNull)))"
  have one: "length ?ws = 1"
    by (simp add: handler_after_ok [OF sample_guards(1-3,5,6) sample_world(1) nested_response_ok(1)]
        nested_response_ok sample_guards sample_world)
  then have mem: "hd ?ws \<in> set ?ws"
    by (cases ?ws) simp_all
  have team: "map_of (payload (hd ?ws)) ''slack_team_id'' = Some (JStr ''T1'')"
    by (simp add: handler_after_ok [OF sample_guards(1-3,5,6) sample_world(1) nested_response_ok(1)]
        nested_response_ok sample_guards sample_world)
       (simp add: nested_response_def teamId_of_def coalesce_def or_null_def)
  from profile_update_frame [of get_request full_env "world_of nested_response JNull" sample_rows] mem
  have cols: "map fst (payload (hd ?ws)) = slack_columns"
    and len: "length (apply_update (hd ?ws) sample_rows) = length sample_rows"
    and frame: "\<forall>i < length sample_rows.
          (\<forall>c. c \<notin> set slack_columns \<longrightarrow>
             (apply_update (hd ?ws) sample_rows ! i) c = (sample_rows ! i) c)
        \<and> ((sample_rows ! i) ''id'' \<noteq> Some (JStr ''user-1'') \<longrightarrow>
              apply_update (hd ?ws) sample_rows ! i = sample_rows ! i)
        \<and> ((sample_rows ! i) ''id'' = Some (JStr ''user-1'') \<longrightarrow>
              (\<forall>c \<in> set slack_columns.
                 (apply_update (hd ?ws) sample_rows ! i) c = map_of (payload (hd ?ws)) c))"
    by (auto simp add: sample_guards(4))
  from frame
  have "(apply_update (hd ?ws) sample_rows ! 0) ''email'' = (sample_rows ! 0) ''email''"
    by (simp add: sample_rows_def slack_columns_def)
  moreover from frame team
  have "(apply_update (hd ?ws) sample_rows ! 0) ''slack_team_id'' = Some (JStr ''T1'')"
    by (simp add: sample_rows_def slack_columns_def user_row_def)
  moreover from frame
  have "apply_update (hd ?ws) sample_rows ! 1 = sample_rows ! 1"
    by (simp add: sample_rows_def user_row_def)
  ultimately show ?thesis
    using one cols len by (simp add: sample_rows_def user_row_def)
qed

subsection \<open>Success without a matching row\<close>

text \<open>
  Claim C10. The success branch depends on the update reporting no error and on nothing
  else of the table: when the invocation passes every step and the update reports no error,
  the handler answers with the 200 HTML page, also for a table in which no row has its id
  equal to \<^verbatim>\<open>state\<close>; on such a table the update the handler has issued changes nothing.
\<close>

theorem success_without_matching_row:
  assumes "req_method req \<noteq> ''OPTIONS''"
    and "truthy_str (searchParams_get (searchParams req) ''code'')"
    and "searchParams_get (searchParams req) ''state'' = Some userId"
    and "userId \<noteq> []"
    and "truthy_str (env ''SLACK_CLIENT_ID'')"
    and "truthy_str (env ''SLACK_CLIENT_SECRET'')"
    and "fetch_result w = Inr tokenData"
    and "read_prop tokenData ''ok'' = Inr ok"
    and "truthy ok"
    and "truthy (Some (accessToken_of tokenData))"
    and "truthy_str (env ''SUPABASE_SERVICE_ROLE_KEY'')"
    and "createClient_result w = None"
    and "update_result w = Inr updateError"
    and "\<not> truthy (Some updateError)"
    and "\<forall>r \<in> set rows. r ''id'' \<noteq> Some (JStr userId)"
  shows "status (fst (handler req env w)) = 200
       \<and> headers (fst (handler req env w)) = [(''Content-Type'', ''text/html'')]
       \<and> body (fst (handler req env w))
           = Html (html (or_str (env ''APP_URL'') ''http://localhost:5173''))
       \<and> (\<exists>u. db_writes (snd (handler req env w)) = [u]
              \<and> eq_filter u = (''id'', userId)
              \<and> apply_update u rows = rows)"
proof -
  have st: "truthy_str (searchParams_get (searchParams req) ''state'')"
    using assms(3,4) by simp
  note page = handler_success [OF assms(1,2) st assms(5-14)]
  note ws = handler_after_ok [OF assms(1,2) st assms(5-9)]
  let ?u = "hd (db_writes (snd (handler req env w)))"
  have one: "db_writes (snd (handler req env w)) = [?u]"
    using assms(10-12) by (simp add: ws)
  have flt: "eq_filter ?u = (''id'', userId)"
    using assms(3,10-12) by (simp add: ws)
  have "\<forall>r \<in> set rows. \<not> row_matches (eq_filter ?u) r"
    using assms(15) by (simp add: flt row_matches_def)
  then have same: "apply_update ?u rows = rows"
    by (rule apply_update_no_match)
  from one flt same have "\<exists>u. db_writes (snd (handler req env w)) = [u]
              \<and> eq_filter u = (''id'', userId) \<and> apply_update u rows = rows"
    by blast
  then show ?thesis
    by (simp add: page)
qed

theorem success_without_matching_row_witness:
  "user_row ''user-2'' ''bob@example.org'' ''id'' = Some (JStr ''user-2'')
   \<and> (status (fst (handler get_request full_env (world_of nested_response JNull))) = 200
       \<and> headers (fst (handler get_request full_env (world_of nested_response JNull)))
           = [(''Content-Type'', ''text/html'')]
       \<and> body (fst (handler get_request full_env (world_of nested_response JNull)))
           = Html (html (or_str (full_env ''APP_URL'') ''http://localhost:5173''))
       \<and> (\<exists>u. db_writes (snd (handler get_request full_env (world_of nested_response JNull))) = [u]
              \<and> eq_filter u = (''id'', ''user-1'')
              \<and> apply_update u [user_row ''user-2'' ''bob@example.org'']
                  = [user_row ''user-2'' ''bob@example.org'']))"
proof -
  have none:
    "\<forall>r \<in> set [user_row ''user-2'' ''bob@example.org'']. r ''id'' \<noteq> Some (JStr ''user-1'')"
    by (simp add: user_row_def)
  have "status (fst (handler get_request full_env (world_of nested_response JNull))) = 200
       \<and> headers (fst (handler get_request full_env (world_of nested_response JNull)))
           = [(''Content-Type'', ''text/html'')]
       \<and> body (fst (handler get_request full_env (world_of nested_response JNull)))
           = Html (html (or_str (full_env ''APP_URL'') ''http://localhost:5173''))
       \<and> (\<exists>u. db_writes (snd (handler get_request full_env (world_of nested_response JNull))) = [u]
              \<and> eq_filter u = (''id'', ''user-1'')
              \<and> apply_update u [user_row ''user-2'' ''bob@example.org'']
                  = [user_row ''user-2'' ''bob@example.org''])"
    by (rule success_without_matching_row
          [where tokenData = nested_response and ok = "Some (JBool True)" and updateError = JNull])
       (simp_all add: sample_guards sample_world nested_response_ok none)
  moreover have "user_row ''user-2'' ''bob@example.org'' ''id'' = Some (JStr ''user-2'')"
    by (simp add: user_row_def)
  ultimately show ?thesis by (rule conjI [rotated])
qed

end
